theory Spec2Isabelle
  imports Main "HOL-Library.Word"
begin

section \<open>pika.compat: a shallow embedding\<close>

text \<open>
  The module \<^verbatim>\<open>src/pika/compat.py\<close> is embedded function by function. Python
  exceptions are values of \<open>py_error\<close>; a function that may raise returns
  \<open>py_error + 'a\<close>, and a function that drives the host's socket API also threads
  the state of that API, \<open>world\<close>, through its calls.
\<close>

subsection \<open>Exceptions\<close>

text \<open>
  The exception classes the module can let escape. \<open>OSError\<close> carries the errno of
  the failed call; \<open>ValueError\<close> its message. The second component of \<open>Exc\<close> is
  \<^verbatim>\<open>__context__\<close>: the exception that was being handled when this one was raised,
  which Python attaches to an exception raised inside an \<^verbatim>\<open>except\<close> or
  \<^verbatim>\<open>finally\<close> block.
\<close>

datatype exc_kind =
    ValueError string
  | OSError nat
  | UnicodeEncodeError nat
  | AttributeError string

datatype py_error = Exc exc_kind "py_error option"

text \<open>An exception raised while \<open>e\<close> is being handled gets \<open>e\<close> as its context.\<close>

fun during :: "py_error \<Rightarrow> py_error \<Rightarrow> py_error" where
  "during e (Exc k c) = Exc k (Some e)"

subsection \<open>The host's socket API\<close>

text \<open>
  \<^verbatim>\<open>socket.AF_INET\<close>, \<^verbatim>\<open>socket.AF_INET6\<close>, \<^verbatim>\<open>socket.SOCK_STREAM\<close> and
  \<^verbatim>\<open>socket.SOMAXCONN\<close> are constants of the platform (2, 10, 1 and 4096 on a
  current Linux); the embedding takes them as a parameter.
\<close>

record platform =
  AF_INET :: int
  AF_INET6 :: int
  SOCK_STREAM :: int
  SOMAXCONN :: int

definition linux :: platform where
  "linux = \<lparr>AF_INET = 2, AF_INET6 = 10, SOCK_STREAM = 1, SOMAXCONN = 4096\<rparr>"

type_synonym fd = nat
type_synonym errno = nat

text \<open>
  What the socket layer keeps for one socket object: the three constructor
  arguments, whether the handle is still open, the blocking flag (a new socket is
  blocking), the address \<^verbatim>\<open>bind\<close> gave it, the backlog \<^verbatim>\<open>listen\<close> gave it and the
  address \<^verbatim>\<open>connect\<close> was given.
\<close>

record sock =
  sk_family :: int
  sk_type :: int
  sk_proto :: int
  sk_open :: bool
  sk_blocking :: bool
  sk_local :: "(string \<times> nat) option"
  sk_backlog :: "int option"
  sk_remote :: "(string \<times> nat) option"

text \<open>The calls of the socket API that the module makes, with their arguments.\<close>

datatype call =
    Socket int int int
  | Bind fd string nat
  | Listen fd int
  | GetSockName fd
  | Connect fd string nat
  | Accept fd
  | Close fd
  | SetBlocking fd bool

text \<open>
  The state of the socket layer. \<open>trace\<close> is the log of every call made so far, in
  order, each with the errno it failed with (\<open>None\<close>: it succeeded). Whether a call
  fails is the host's decision, not the program's: \<open>faults w n\<close> is the outcome the
  host gives to the \<open>n\<close>-th call, so that a theorem for every \<open>w\<close> is a theorem for
  every pattern of failures. \<open>eph_port\<close> is the port the host assigns to a bind on
  port 0.
\<close>

record world =
  socks :: "fd \<Rightarrow> sock option"
  next_fd :: fd
  trace :: "(call \<times> errno option) list"
  faults :: "nat \<Rightarrow> errno option"
  eph_port :: nat

type_synonym 'a io = "world \<Rightarrow> world \<times> (py_error + 'a)"

definition return_io :: "'a \<Rightarrow> 'a io" where
  "return_io x w = (w, Inr x)"

definition raise_io :: "py_error \<Rightarrow> 'a io" where
  "raise_io e w = (w, Inl e)"

text \<open>Sequencing: the second statement runs only if the first did not raise.\<close>

definition then_io :: "'a io \<Rightarrow> ('a \<Rightarrow> 'b io) \<Rightarrow> 'b io" where
  "then_io m f w = (case m w of (w', Inl e) \<Rightarrow> (w', Inl e) | (w', Inr x) \<Rightarrow> f x w')"

text \<open>
  \<^verbatim>\<open>try: body  except Exception: handler; raise\<close>. Every \<open>exc_kind\<close> of this
  theory is a subclass of \<^verbatim>\<open>Exception\<close>, so the clause catches whatever \<open>body\<close>
  raises. If the handler itself raises, that new exception propagates, with the
  caught one as its context, and the \<^verbatim>\<open>raise\<close> statement is not reached.
\<close>

definition try_except_reraise :: "'a io \<Rightarrow> unit io \<Rightarrow> 'a io" where
  "try_except_reraise body handler w =
     (case body w of
        (w1, Inr x) \<Rightarrow> (w1, Inr x)
      | (w1, Inl e) \<Rightarrow>
          (case handler w1 of
             (w2, Inl e') \<Rightarrow> (w2, Inl (during e e'))
           | (w2, Inr u) \<Rightarrow> (w2, Inl e)))"

text \<open>
  \<^verbatim>\<open>try: body  finally: fin\<close>. \<open>fin\<close> runs whatever \<open>body\<close> did. If \<open>fin\<close> raises,
  its exception replaces the outcome of \<open>body\<close> (and gets the exception of \<open>body\<close>,
  if there was one, as its context); otherwise the outcome of \<open>body\<close> stands.
\<close>

definition try_finally :: "'a io \<Rightarrow> unit io \<Rightarrow> 'a io" where
  "try_finally body fin w =
     (case body w of
        (w1, r) \<Rightarrow>
          (case fin w1 of
             (w2, Inl e') \<Rightarrow>
               (w2, Inl (case r of Inl e \<Rightarrow> during e e' | Inr x \<Rightarrow> e'))
           | (w2, Inr u) \<Rightarrow> (w2, r)))"

text \<open>
  One call into the socket layer: it is logged with the outcome the host gives it,
  and raises \<^verbatim>\<open>OSError\<close> on a failure.
\<close>

definition syscall :: "call \<Rightarrow> unit io" where
  "syscall c w =
     (let r = faults w (length (trace w));
          w' = w\<lparr>trace := trace w @ [(c, r)]\<rparr>
      in case r of
           None \<Rightarrow> (w', Inr ())
         | Some e \<Rightarrow> (w', Inl (Exc (OSError e) None)))"

definition modify_sock :: "fd \<Rightarrow> (sock \<Rightarrow> sock) \<Rightarrow> world \<Rightarrow> world" where
  "modify_sock s f w =
     (case socks w s of
        None \<Rightarrow> w
      | Some k \<Rightarrow> w\<lparr>socks := (socks w)(s \<mapsto> f k)\<rparr>)"

definition new_sock :: "int \<Rightarrow> int \<Rightarrow> int \<Rightarrow> sock" where
  "new_sock family socket_type proto =
     \<lparr>sk_family = family, sk_type = socket_type, sk_proto = proto,
      sk_open = True, sk_blocking = True,
      sk_local = None, sk_backlog = None, sk_remote = None\<rparr>"

definition alloc_sock :: "sock \<Rightarrow> fd io" where
  "alloc_sock k w =
     (w\<lparr>socks := (socks w)(next_fd w \<mapsto> k), next_fd := Suc (next_fd w)\<rparr>,
      Inr (next_fd w))"

text \<open>\<^verbatim>\<open>socket.socket(family, type, proto)\<close>: a new, open, blocking socket.\<close>

definition socket_socket :: "int \<Rightarrow> int \<Rightarrow> int \<Rightarrow> fd io" where
  "socket_socket family socket_type proto =
     then_io (syscall (Socket family socket_type proto))
       (\<lambda>u. alloc_sock (new_sock family socket_type proto))"

text \<open>\<^verbatim>\<open>s.bind((host, port))\<close>: port 0 asks the host for an ephemeral port.\<close>

definition sock_bind :: "fd \<Rightarrow> string \<Rightarrow> nat \<Rightarrow> unit io" where
  "sock_bind s host port =
     then_io (syscall (Bind s host port))
       (\<lambda>u w. (modify_sock s
                  (\<lambda>k. k\<lparr>sk_local := Some (host, if port = 0 then eph_port w else port)\<rparr>) w,
               Inr ()))"

text \<open>\<^verbatim>\<open>s.listen(backlog)\<close>.\<close>

definition sock_listen :: "fd \<Rightarrow> int \<Rightarrow> unit io" where
  "sock_listen s backlog =
     then_io (syscall (Listen s backlog))
       (\<lambda>u w. (modify_sock s (\<lambda>k. k\<lparr>sk_backlog := Some backlog\<rparr>) w, Inr ()))"

text \<open>
  \<^verbatim>\<open>s.getsockname()\<close>: a pair (host, port) for an IPv4 socket, a 4-tuple (host,
  port, flowinfo, scope_id) for an IPv6 one. errno 9 is EBADF, errno 22 EINVAL.
\<close>

datatype sockaddr =
    SockaddrIn string nat
  | SockaddrIn6 string nat nat nat

definition sock_getsockname :: "platform \<Rightarrow> fd \<Rightarrow> sockaddr io" where
  "sock_getsockname pf s =
     then_io (syscall (GetSockName s))
       (\<lambda>u w. case socks w s of
                 None \<Rightarrow> (w, Inl (Exc (OSError 9) None))
               | Some k \<Rightarrow>
                   (case sk_local k of
                      None \<Rightarrow> (w, Inl (Exc (OSError 22) None))
                    | Some (host, port) \<Rightarrow>
                        (w, Inr (if sk_family k = AF_INET6 pf
                                 then SockaddrIn6 host port 0 0
                                 else SockaddrIn host port))))"

text \<open>\<^verbatim>\<open>addr, port = sockaddr[:2]\<close>.\<close>

fun first_two :: "sockaddr \<Rightarrow> string \<times> nat" where
  "first_two (SockaddrIn host port) = (host, port)"
| "first_two (SockaddrIn6 host port flowinfo scope_id) = (host, port)"

text \<open>\<^verbatim>\<open>s.connect((addr, port))\<close>.\<close>

definition sock_connect :: "fd \<Rightarrow> string \<Rightarrow> nat \<Rightarrow> unit io" where
  "sock_connect s addr port =
     then_io (syscall (Connect s addr port))
       (\<lambda>u w. (modify_sock s (\<lambda>k. k\<lparr>sk_remote := Some (addr, port)\<rparr>) w, Inr ()))"

text \<open>
  \<^verbatim>\<open>s.accept()\<close>: a new, open, blocking socket of the listener's family, type and
  protocol, on the listener's address. The peer address that \<^verbatim>\<open>accept\<close> also
  returns is left out: the module discards it.
\<close>

definition sock_accept :: "fd \<Rightarrow> fd io" where
  "sock_accept s =
     then_io (syscall (Accept s))
       (\<lambda>u w. case socks w s of
                 None \<Rightarrow> (w, Inl (Exc (OSError 9) None))
               | Some k \<Rightarrow>
                   alloc_sock ((new_sock (sk_family k) (sk_type k) (sk_proto k))
                                 \<lparr>sk_local := sk_local k\<rparr>) w)"

text \<open>
  \<^verbatim>\<open>s.close()\<close>: the handle is given up first and the host's close is called
  after, so the socket is closed also when the call reports an error.
\<close>

definition sock_close :: "fd \<Rightarrow> unit io" where
  "sock_close s w = syscall (Close s) (modify_sock s (\<lambda>k. k\<lparr>sk_open := False\<rparr>) w)"

text \<open>\<^verbatim>\<open>s.setblocking(flag)\<close>.\<close>

definition sock_setblocking :: "fd \<Rightarrow> bool \<Rightarrow> unit io" where
  "sock_setblocking s flag =
     then_io (syscall (SetBlocking s flag))
       (\<lambda>u w. (modify_sock s (\<lambda>k. k\<lparr>sk_blocking := flag\<rparr>) w, Inr ()))"

subsection \<open>nonblocking_socketpair\<close>

definition LOCALHOST :: string where
  "LOCALHOST = ''127.0.0.1''"

definition LOCALHOST_V6 :: string where
  "LOCALHOST_V6 = ''::1''"

definition family_error :: py_error where
  "family_error =
     Exc (ValueError ''Only AF_INET and AF_INET6 socket address families are supported'') None"

definition socket_type_error :: py_error where
  "socket_type_error = Exc (ValueError ''Only SOCK_STREAM socket socket_type is supported'') None"

definition proto_error :: py_error where
  "proto_error = Exc (ValueError ''Only protocol zero is supported'') None"

text \<open>
  Lines 177 to 183: the client socket, and the inner \<^verbatim>\<open>try\<close> with its handler.
  The value is the pair (csock, ssock) of the variables the block assigns.
\<close>

definition connect_accept :: "int \<Rightarrow> int \<Rightarrow> int \<Rightarrow> fd \<Rightarrow> string \<Rightarrow> nat \<Rightarrow> (fd \<times> fd) io" where
  "connect_accept family socket_type proto lsock addr port =
     then_io (socket_socket family socket_type proto) (\<lambda>csock.
       try_except_reraise
         (then_io (sock_connect csock addr port) (\<lambda>u.
          then_io (sock_accept lsock) (\<lambda>ssock.
          return_io (csock, ssock))))
         (sock_close csock))"

text \<open>Lines 173 to 183: the body of the outer \<^verbatim>\<open>try\<close>.\<close>

definition handshake :: "platform \<Rightarrow> int \<Rightarrow> int \<Rightarrow> int \<Rightarrow> string \<Rightarrow> fd \<Rightarrow> (fd \<times> fd) io" where
  "handshake pf family socket_type proto host lsock =
     then_io (sock_bind lsock host 0) (\<lambda>u.
     then_io (sock_listen lsock (min (SOMAXCONN pf) 128)) (\<lambda>u.
     then_io (sock_getsockname pf lsock) (\<lambda>sa.
       case first_two sa of
         (addr, port) \<Rightarrow> connect_accept family socket_type proto lsock addr port)))"

text \<open>Lines 171 to 192: everything after the checks of the arguments.\<close>

definition make_pair :: "platform \<Rightarrow> int \<Rightarrow> int \<Rightarrow> int \<Rightarrow> string \<Rightarrow> (fd \<times> fd) io" where
  "make_pair pf family socket_type proto host =
     then_io (socket_socket family socket_type proto) (\<lambda>lsock.
     then_io (try_finally
                (handshake pf family socket_type proto host lsock)
                (sock_close lsock)) (\<lambda>(csock, ssock).
     then_io (sock_setblocking csock False) (\<lambda>u.
     then_io (sock_setblocking ssock False) (\<lambda>u.
     return_io (ssock, csock)))))"

text \<open>Lines 159 to 165: the loopback address literal of the family.\<close>

definition select_host :: "platform \<Rightarrow> int \<Rightarrow> py_error + string" where
  "select_host pf family =
     (if family = AF_INET pf then Inr LOCALHOST
      else if family = AF_INET6 pf then Inr LOCALHOST_V6
      else Inl family_error)"

text \<open>The function; its result is the pair (ssock, csock).\<close>

definition nonblocking_socketpair :: "platform \<Rightarrow> int \<Rightarrow> int \<Rightarrow> int \<Rightarrow> (fd \<times> fd) io" where
  "nonblocking_socketpair pf family socket_type proto =
     (case select_host pf family of
        Inl e \<Rightarrow> raise_io e
      | Inr host \<Rightarrow>
          if socket_type \<noteq> SOCK_STREAM pf then raise_io socket_type_error
          else if proto \<noteq> 0 then raise_io proto_error
          else make_pair pf family socket_type proto host)"

text \<open>The calls made between two states of the socket layer, with their outcomes.\<close>

definition calls_between :: "world \<Rightarrow> world \<Rightarrow> (call \<times> errno option) list" where
  "calls_between w w' = drop (length (trace w)) (trace w')"

text \<open>Whether a call is a \<^verbatim>\<open>close\<close>.\<close>

fun is_close :: "call \<Rightarrow> bool" where
  "is_close (Close s) = True"
| "is_close c = False"

text \<open>
  The exception at the end of the chain of contexts: the one that was raised first, when
  each later one was raised while its predecessor was being handled.
\<close>

fun root_cause :: "py_error \<Rightarrow> py_error" where
  "root_cause (Exc k None) = Exc k None"
| "root_cause (Exc k (Some e)) = root_cause e"

subsection \<open>Concrete socket layers\<close>

text \<open>
  A socket layer with no socket yet, whose calls all succeed; one where the sixth call of a
  run (the \<^verbatim>\<open>connect\<close>) fails with ECONNREFUSED (111); and one where, after that, the
  seventh call (the \<^verbatim>\<open>close\<close> of the client socket) fails with EIO (5).
\<close>

definition no_faults :: "nat \<Rightarrow> errno option" where
  "no_faults n = None"

definition w0 :: world where
  "w0 = \<lparr>socks = Map.empty, next_fd = 3, trace = [], faults = no_faults, eph_port = 50000\<rparr>"

definition w_connect_fails :: world where
  "w_connect_fails = w0\<lparr>faults := no_faults(5 \<mapsto> 111)\<rparr>"

definition w_connect_close_fail :: world where
  "w_connect_close_fail = w0\<lparr>faults := no_faults(5 \<mapsto> 111, 6 \<mapsto> 5)\<rparr>"

subsection \<open>as_bytes\<close>

text \<open>
  A Python \<^verbatim>\<open>str\<close> is a sequence of code points, a \<^verbatim>\<open>bytes\<close> a sequence of octets.
  The values \<^verbatim>\<open>as_bytes\<close> may be handed: a \<^verbatim>\<open>str\<close>, a \<^verbatim>\<open>bytes\<close>, or something else,
  for which an \<^verbatim>\<open>int\<close> and \<^verbatim>\<open>None\<close> stand.
\<close>

type_synonym byte = "8 word"

datatype py_value =
    PyStr "nat list"
  | PyBytes "byte list"
  | PyInt int
  | PyNone

text \<open>
  The UTF-8 encoding of one code point. A surrogate (U+D800 to U+DFFF) has none, and
  \<^verbatim>\<open>str.encode\<close> raises \<^verbatim>\<open>UnicodeEncodeError\<close> on it. A \<^verbatim>\<open>str\<close> holds no code point
  above U+10FFFF.
\<close>

definition utf8_char :: "nat \<Rightarrow> byte list option" where
  "utf8_char cp =
     (if cp < 0x80 then Some [of_nat cp]
      else if cp < 0x800 then
        Some [of_nat (0xC0 + cp div 0x40), of_nat (0x80 + cp mod 0x40)]
      else if 0xD800 \<le> cp \<and> cp \<le> 0xDFFF then None
      else if cp < 0x10000 then
        Some [of_nat (0xE0 + cp div 0x1000), of_nat (0x80 + cp div 0x40 mod 0x40),
              of_nat (0x80 + cp mod 0x40)]
      else
        Some [of_nat (0xF0 + cp div 0x40000), of_nat (0x80 + cp div 0x1000 mod 0x40),
              of_nat (0x80 + cp div 0x40 mod 0x40), of_nat (0x80 + cp mod 0x40)])"

text \<open>
  \<^verbatim>\<open>str.encode('UTF-8')\<close> on the text from position \<open>i\<close> on; the error carries the position
  of the first code point that cannot be encoded.
\<close>

fun utf8_from :: "nat \<Rightarrow> nat list \<Rightarrow> py_error + byte list" where
  "utf8_from i [] = Inr []"
| "utf8_from i (cp # cps) =
     (case utf8_char cp of
        None \<Rightarrow> Inl (Exc (UnicodeEncodeError i) None)
      | Some bs \<Rightarrow>
          (case utf8_from (Suc i) cps of
             Inl e \<Rightarrow> Inl e
           | Inr rest \<Rightarrow> Inr (bs @ rest)))"

text \<open>\<^verbatim>\<open>isinstance(value, bytes)\<close>.\<close>

fun isinstance_bytes :: "py_value \<Rightarrow> bool" where
  "isinstance_bytes (PyBytes b) = True"
| "isinstance_bytes v = False"

text \<open>
  \<^verbatim>\<open>value.encode('UTF-8')\<close>: only a \<^verbatim>\<open>str\<close> has the method; on the other values the
  attribute lookup raises \<^verbatim>\<open>AttributeError\<close>.
\<close>

fun encode_UTF8 :: "py_value \<Rightarrow> py_error + py_value" where
  "encode_UTF8 (PyStr s) =
     (case utf8_from 0 s of Inl e \<Rightarrow> Inl e | Inr b \<Rightarrow> Inr (PyBytes b))"
| "encode_UTF8 (PyBytes b) = Inl (Exc (AttributeError ''encode'') None)"
| "encode_UTF8 (PyInt i) = Inl (Exc (AttributeError ''encode'') None)"
| "encode_UTF8 PyNone = Inl (Exc (AttributeError ''encode'') None)"

definition as_bytes :: "py_value \<Rightarrow> py_error + py_value" where
  "as_bytes value =
     (if \<not> isinstance_bytes value then encode_UTF8 value
      else Inr value)"

subsection \<open>to_digit\<close>

text \<open>
  The two character classes of the Unicode database (version 14.0.0, that of Python 3.11)
  that \<^verbatim>\<open>to_digit\<close> depends on. \<open>decimal_blocks\<close> lists the runs of characters with a
  decimal value (category Nd): each run starts at a digit zero, and the value of a character
  is its offset in the run modulo 10. \<open>digit_only_blocks\<close> lists the characters that have a
  digit value but no decimal value: superscripts, subscripts, circled digits and the like.
\<close>

definition decimal_blocks :: "(nat \<times> nat) list" where
  "decimal_blocks =
     [(0x30, 0x39), (0x660, 0x669), (0x6F0, 0x6F9), (0x7C0, 0x7C9), (0x966, 0x96F),
      (0x9E6, 0x9EF), (0xA66, 0xA6F), (0xAE6, 0xAEF), (0xB66, 0xB6F), (0xBE6, 0xBEF),
      (0xC66, 0xC6F), (0xCE6, 0xCEF), (0xD66, 0xD6F), (0xDE6, 0xDEF), (0xE50, 0xE59),
      (0xED0, 0xED9), (0xF20, 0xF29), (0x1040, 0x1049), (0x1090, 0x1099), (0x17E0, 0x17E9),
      (0x1810, 0x1819), (0x1946, 0x194F), (0x19D0, 0x19D9), (0x1A80, 0x1A89),
      (0x1A90, 0x1A99), (0x1B50, 0x1B59), (0x1BB0, 0x1BB9), (0x1C40, 0x1C49),
      (0x1C50, 0x1C59), (0xA620, 0xA629), (0xA8D0, 0xA8D9), (0xA900, 0xA909),
      (0xA9D0, 0xA9D9), (0xA9F0, 0xA9F9), (0xAA50, 0xAA59), (0xABF0, 0xABF9),
      (0xFF10, 0xFF19), (0x104A0, 0x104A9), (0x10D30, 0x10D39), (0x11066, 0x1106F),
      (0x110F0, 0x110F9), (0x11136, 0x1113F), (0x111D0, 0x111D9), (0x112F0, 0x112F9),
      (0x11450, 0x11459), (0x114D0, 0x114D9), (0x11650, 0x11659), (0x116C0, 0x116C9),
      (0x11730, 0x11739), (0x118E0, 0x118E9), (0x11950, 0x11959), (0x11C50, 0x11C59),
      (0x11D50, 0x11D59), (0x11DA0, 0x11DA9), (0x16A60, 0x16A69), (0x16AC0, 0x16AC9),
      (0x16B50, 0x16B59), (0x1D7CE, 0x1D7FF), (0x1E140, 0x1E149), (0x1E2F0, 0x1E2F9),
      (0x1E950, 0x1E959), (0x1FBF0, 0x1FBF9)]"

definition digit_only_blocks :: "(nat \<times> nat) list" where
  "digit_only_blocks =
     [(0xB2, 0xB3), (0xB9, 0xB9), (0x1369, 0x1371), (0x19DA, 0x19DA), (0x2070, 0x2070),
      (0x2074, 0x2079), (0x2080, 0x2089), (0x2460, 0x2468), (0x2474, 0x247C),
      (0x2488, 0x2490), (0x24EA, 0x24EA), (0x24F5, 0x24FD), (0x24FF, 0x24FF),
      (0x2776, 0x277E), (0x2780, 0x2788), (0x278A, 0x2792), (0x10A40, 0x10A43),
      (0x10E60, 0x10E68), (0x11052, 0x1105A), (0x1F100, 0x1F10A)]"

fun block_of :: "nat \<Rightarrow> (nat \<times> nat) list \<Rightarrow> (nat \<times> nat) option" where
  "block_of cp [] = None"
| "block_of cp ((lo, hi) # blocks) =
     (if lo \<le> cp \<and> cp \<le> hi then Some (lo, hi) else block_of cp blocks)"

text \<open>The decimal value of a character, if it has one.\<close>

definition to_decimal :: "nat \<Rightarrow> nat option" where
  "to_decimal cp =
     (case block_of cp decimal_blocks of
        None \<Rightarrow> None
      | Some (lo, hi) \<Rightarrow> Some ((cp - lo) mod 10))"

text \<open>What \<^verbatim>\<open>\\d\<close> matches in a pattern on \<^verbatim>\<open>str\<close>: the characters with a decimal value.\<close>

definition is_decimal :: "nat \<Rightarrow> bool" where
  "is_decimal cp = (to_decimal cp \<noteq> None)"

text \<open>The characters with a digit value: the decimal ones and those of \<open>digit_only_blocks\<close>.\<close>

definition is_digit :: "nat \<Rightarrow> bool" where
  "is_digit cp = (is_decimal cp \<or> block_of cp digit_only_blocks \<noteq> None)"

text \<open>\<^verbatim>\<open>value.isdigit()\<close>: the string is not empty and all its characters are digits.\<close>

definition isdigit :: "nat list \<Rightarrow> bool" where
  "isdigit s = (s \<noteq> [] \<and> list_all is_digit s)"

text \<open>
  \<^verbatim>\<open>int(s)\<close> for a string in which every character has a digit value, as are both the
  strings \<^verbatim>\<open>to_digit\<close> passes: such a string holds no sign, whitespace or underscore, and
  \<^verbatim>\<open>int\<close> reads it as a base-10 numeral if all its characters have a decimal value and
  raises \<^verbatim>\<open>ValueError\<close> if one has not. (The message also quotes the string; the interpreter's
  optional limit on the number of digits of a numeral is left out.)
\<close>

fun decimal_numeral :: "nat \<Rightarrow> nat list \<Rightarrow> nat option" where
  "decimal_numeral acc [] = Some acc"
| "decimal_numeral acc (cp # cps) =
     (case to_decimal cp of
        None \<Rightarrow> None
      | Some d \<Rightarrow> decimal_numeral (10 * acc + d) cps)"

definition invalid_literal :: py_error where
  "invalid_literal = Exc (ValueError ''invalid literal for int() with base 10'') None"

definition py_int :: "nat list \<Rightarrow> py_error + int" where
  "py_int s =
     (if s = [] then Inl invalid_literal
      else case decimal_numeral 0 s of
             None \<Rightarrow> Inl invalid_literal
           | Some n \<Rightarrow> Inr (int n))"

text \<open>
  \<^verbatim>\<open>RE_NUM.match(value)\<close> with \<^verbatim>\<open>RE_NUM = re.compile(r'(\\d+).+')\<close>, giving group 1 of the
  match. \<^verbatim>\<open>.+\<close> needs one character that is not a newline (code point 10) and then takes
  what it likes. \<^verbatim>\<open>\\d+\<close> is greedy: it first takes the whole run of decimal characters
  at the start, and gives them back one by one, down to one, until \<^verbatim>\<open>.+\<close> can match what
  follows.
\<close>

fun dot_plus :: "nat list \<Rightarrow> bool" where
  "dot_plus [] = False"
| "dot_plus (cp # cps) = (cp \<noteq> 10)"

fun backtrack :: "nat list \<Rightarrow> nat \<Rightarrow> nat list option" where
  "backtrack s 0 = None"
| "backtrack s (Suc n) =
     (if dot_plus (drop (Suc n) s) then Some (take (Suc n) s) else backtrack s n)"

definition RE_NUM_match :: "nat list \<Rightarrow> nat list option" where
  "RE_NUM_match s = backtrack s (length (takeWhile is_decimal s))"

definition to_digit :: "nat list \<Rightarrow> py_error + int" where
  "to_digit value =
     (if isdigit value then py_int value
      else case RE_NUM_match value of
             Some group1 \<Rightarrow> py_int group1
           | None \<Rightarrow> Inr 0)"

subsection \<open>Checks of the arguments\<close>

text \<open>
  C2: with a family that is neither \<^verbatim>\<open>AF_INET\<close> nor \<^verbatim>\<open>AF_INET6\<close> the call raises
  the \<^verbatim>\<open>ValueError\<close> for the family and leaves the socket layer as it found it: no call
  was made, no socket exists that did not exist before.
\<close>

theorem unsupported_family_rejected:
  assumes "family \<noteq> AF_INET pf" and "family \<noteq> AF_INET6 pf"
  shows "nonblocking_socketpair pf family socket_type proto w = (w, Inl family_error) \<and>
         (\<exists>msg. family_error = Exc (ValueError msg) None) \<and>
         calls_between w w = []"
  using assms
  by (simp add: nonblocking_socketpair_def select_host_def raise_io_def family_error_def
      calls_between_def)

theorem unsupported_family_rejected_witness:
  "nonblocking_socketpair linux 1 1 0 w0 = (w0, Inl family_error) \<and>
         (\<exists>msg. family_error = Exc (ValueError msg) None) \<and>
         calls_between w0 w0 = []"
  using unsupported_family_rejected [of 1 linux 1 0 w0]
  by (simp add: linux_def)

text \<open>
  C6: with a socket type other than \<^verbatim>\<open>SOCK_STREAM\<close>, or a protocol other than 0, the
  call raises a \<^verbatim>\<open>ValueError\<close> and the socket layer is untouched (for any family, so in
  particular for the supported ones).
\<close>

theorem unsupported_type_or_proto_rejected:
  assumes "socket_type \<noteq> SOCK_STREAM pf \<or> proto \<noteq> 0"
  shows "\<exists>msg. nonblocking_socketpair pf family socket_type proto w = (w, Inl (Exc (ValueError msg) None))"
  using assms
  by (auto simp add: nonblocking_socketpair_def select_host_def raise_io_def family_error_def
      socket_type_error_def proto_error_def)

theorem unsupported_type_or_proto_rejected_witness:
  "\<exists>msg. nonblocking_socketpair linux 2 2 0 w0 = (w0, Inl (Exc (ValueError msg) None))"
  using unsupported_type_or_proto_rejected [of 2 linux 0 2 w0]
  by (simp add: linux_def)

text \<open>
  C8: the checks run in the order family, socket type, protocol, and the first one that fails
  decides the error: an unsupported family is reported whatever the other two arguments are,
  an unsupported socket type whatever the protocol is. The three errors are different values.
\<close>

theorem validation_order:
  "(family \<noteq> AF_INET pf \<and> family \<noteq> AF_INET6 pf \<longrightarrow>
      nonblocking_socketpair pf family socket_type proto w = (w, Inl family_error)) \<and>
   ((family = AF_INET pf \<or> family = AF_INET6 pf) \<and> socket_type \<noteq> SOCK_STREAM pf \<longrightarrow>
      nonblocking_socketpair pf family socket_type proto w = (w, Inl socket_type_error)) \<and>
   ((family = AF_INET pf \<or> family = AF_INET6 pf) \<and> socket_type = SOCK_STREAM pf \<and> proto \<noteq> 0 \<longrightarrow>
      nonblocking_socketpair pf family socket_type proto w = (w, Inl proto_error)) \<and>
   family_error \<noteq> socket_type_error \<and> family_error \<noteq> proto_error \<and>
   socket_type_error \<noteq> proto_error"
  by (auto simp add: nonblocking_socketpair_def select_host_def raise_io_def family_error_def
      socket_type_error_def proto_error_def)

theorem validation_order_witness:
  "nonblocking_socketpair linux 7 2 5 w0 = (w0, Inl family_error) \<and>
   nonblocking_socketpair linux 10 2 5 w0 = (w0, Inl socket_type_error) \<and>
   nonblocking_socketpair linux 10 1 5 w0 = (w0, Inl proto_error)"
  using validation_order [of 7 linux 2 5 w0] validation_order [of 10 linux 2 5 w0]
    validation_order [of 10 linux 1 5 w0]
  by (simp add: linux_def)

subsection \<open>The handshake\<close>

text \<open>
  The function makes at most ten calls, and which ones depends only on which of them fail,
  so a property of all its runs is proved by following every path through the definition.
\<close>

lemmas prim_defs = then_io_def return_io_def raise_io_def try_finally_def try_except_reraise_def
  syscall_def socket_socket_def sock_bind_def sock_listen_def sock_getsockname_def
  sock_connect_def sock_accept_def sock_close_def sock_setblocking_def alloc_sock_def
  modify_sock_def new_sock_def calls_between_def Let_def

lemmas run_defs = make_pair_def handshake_def connect_accept_def

lemmas eval_defs = nonblocking_socketpair_def select_host_def run_defs prim_defs w0_def
  w_connect_fails_def w_connect_close_fail_def no_faults_def linux_def LOCALHOST_def
  LOCALHOST_V6_def

lemma nonblocking_socketpair_cases:
  assumes "nonblocking_socketpair pf family socket_type proto w = (w', r)"
  shows "(w' = w \<and> (\<exists>e. r = Inl e)) \<or>
         (\<exists>host. select_host pf family = Inr host \<and> socket_type = SOCK_STREAM pf \<and> proto = 0 \<and>
                 make_pair pf family socket_type proto host w = (w', r))"
  using assms
  by (auto simp: nonblocking_socketpair_def raise_io_def split: sum.splits if_splits)

lemma calls_between_same: "calls_between w w = []"
  by (simp add: calls_between_def)

lemma make_pair_nonblocking:
  "case make_pair pf fam ty pr host w of
     (w', Inl e) \<Rightarrow> True
   | (w', Inr (s, c)) \<Rightarrow>
      s \<noteq> c \<and>
      (\<exists>k. socks w' s = Some k \<and> sk_open k \<and> \<not> sk_blocking k) \<and>
      (\<exists>k. socks w' c = Some k \<and> sk_open k \<and> \<not> sk_blocking k) \<and>
      (SetBlocking s False, None) \<in> set (calls_between w w') \<and>
      (SetBlocking c False, None) \<in> set (calls_between w w')"
  by (simp add: run_defs prim_defs split: option.splits sum.splits prod.splits)

text \<open>
  C1: when the call returns a pair (ssock, csock), both are open sockets whose blocking flag
  is off in the state the caller gets, and the run has made a successful
  \<^verbatim>\<open>setblocking(False)\<close> call on each.
\<close>

theorem returned_sockets_nonblocking:
  assumes "nonblocking_socketpair pf family socket_type proto w = (w', Inr (ssock, csock))"
  shows "ssock \<noteq> csock \<and>
         (\<exists>k. socks w' ssock = Some k \<and> sk_open k \<and> \<not> sk_blocking k) \<and>
         (\<exists>k. socks w' csock = Some k \<and> sk_open k \<and> \<not> sk_blocking k) \<and>
         (SetBlocking ssock False, None) \<in> set (calls_between w w') \<and>
         (SetBlocking csock False, None) \<in> set (calls_between w w')"
proof -
  from nonblocking_socketpair_cases [OF assms] obtain host
    where "make_pair pf family socket_type proto host w = (w', Inr (ssock, csock))"
    by auto
  with make_pair_nonblocking [where pf = pf and fam = family and ty = socket_type and pr = proto
      and host = host and w = w]
  show ?thesis by simp
qed

theorem returned_sockets_nonblocking_witness:
  "\<exists>w'. nonblocking_socketpair linux 2 1 0 w0 = (w', Inr (5, 4)) \<and>
        (\<exists>k. socks w' 5 = Some k \<and> sk_open k \<and> \<not> sk_blocking k) \<and>
        (\<exists>k. socks w' 4 = Some k \<and> sk_open k \<and> \<not> sk_blocking k)"
proof -
  have "snd (nonblocking_socketpair linux 2 1 0 w0) = Inr (5, 4)"
    by (simp add: eval_defs)
  then obtain w' where run: "nonblocking_socketpair linux 2 1 0 w0 = (w', Inr (5, 4))"
    by (cases "nonblocking_socketpair linux 2 1 0 w0") auto
  from returned_sockets_nonblocking [OF run] run show ?thesis
    by blast
qed

lemma make_pair_connect_accept_failure:
  "case make_pair pf fam ty pr host w of (w', r) \<Rightarrow>
   (\<forall>c a p e. (Connect c a p, Some e) \<in> set (calls_between w w') \<longrightarrow> c = Suc (next_fd w)) \<and>
   (\<forall>l e. (Accept l, Some e) \<in> set (calls_between w w') \<longrightarrow> l = next_fd w) \<and>
   ((\<exists>c a p e. (Connect c a p, Some e) \<in> set (calls_between w w')) \<or>
    (\<exists>l e. (Accept l, Some e) \<in> set (calls_between w w')) \<longrightarrow>
    (\<exists>e. r = Inl e) \<and> next_fd w' = Suc (Suc (next_fd w)) \<and>
    (\<exists>k. socks w' (next_fd w) = Some k \<and> \<not> sk_open k) \<and>
    (\<exists>k. socks w' (Suc (next_fd w)) = Some k \<and> \<not> sk_open k) \<and>
    (\<exists>ro. (Close (Suc (next_fd w)), ro) \<in> set (calls_between w w')))"
  by (simp add: run_defs prim_defs split: option.splits sum.splits prod.splits)

text \<open>
  C3: the client socket is the second socket a run creates, \<open>Suc (next_fd w)\<close>, the one
  the \<^verbatim>\<open>connect\<close> call names. In every run in which the \<^verbatim>\<open>connect\<close> or the
  \<^verbatim>\<open>accept\<close> call failed, the function raises, \<^verbatim>\<open>close\<close> was called on the client
  socket, and in the state the caller is left with the client socket and the listener are
  closed and no third socket was created.
\<close>

theorem client_closed_when_connect_or_accept_fails:
  assumes run: "nonblocking_socketpair pf family socket_type proto w = (w', r)"
    and failed: "(Connect c addr port, Some e) \<in> set (calls_between w w') \<or>
                 (Accept l, Some e) \<in> set (calls_between w w')"
  shows "(\<exists>err. r = Inl err) \<and>
         (\<exists>ro. (Close (Suc (next_fd w)), ro) \<in> set (calls_between w w')) \<and>
         (\<exists>k. socks w' (Suc (next_fd w)) = Some k \<and> \<not> sk_open k) \<and>
         (\<exists>k. socks w' (next_fd w) = Some k \<and> \<not> sk_open k) \<and>
         next_fd w' = Suc (Suc (next_fd w)) \<and>
         ((Connect c addr port, Some e) \<in> set (calls_between w w') \<longrightarrow> c = Suc (next_fd w))"
proof -
  from failed have "w' \<noteq> w"
    by (auto simp: calls_between_same)
  with nonblocking_socketpair_cases [OF run] obtain host
    where mp: "make_pair pf family socket_type proto host w = (w', r)"
    by auto
  from make_pair_connect_accept_failure [where pf = pf and fam = family and ty = socket_type
      and pr = proto and host = host and w = w] mp failed
  show ?thesis
    by (simp del: ex_simps) blast
qed

theorem client_closed_when_connect_or_accept_fails_witness:
  "\<exists>w' r. nonblocking_socketpair linux 2 1 0 w_connect_fails = (w', r) \<and>
     (Connect 4 ''127.0.0.1'' 50000, Some 111) \<in> set (calls_between w_connect_fails w') \<and>
     r = Inl (Exc (OSError 111) None) \<and>
     (\<exists>k. socks w' 4 = Some k \<and> \<not> sk_open k)"
proof -
  obtain w' r where run: "nonblocking_socketpair linux 2 1 0 w_connect_fails = (w', r)"
    by (cases "nonblocking_socketpair linux 2 1 0 w_connect_fails") auto
  have "calls_between w_connect_fails (fst (nonblocking_socketpair linux 2 1 0 w_connect_fails)) =
        [(Socket 2 1 0, None), (Bind 3 ''127.0.0.1'' 0, None), (Listen 3 128, None),
         (GetSockName 3, None), (Socket 2 1 0, None), (Connect 4 ''127.0.0.1'' 50000, Some 111),
         (Close 4, None), (Close 3, None)]"
    by (simp add: eval_defs)
  with run have mem: "(Connect 4 ''127.0.0.1'' 50000, Some 111) \<in> set (calls_between w_connect_fails w')"
    by simp
  have "snd (nonblocking_socketpair linux 2 1 0 w_connect_fails) = Inl (Exc (OSError 111) None)"
    by (simp add: eval_defs)
  with run have res: "r = Inl (Exc (OSError 111) None)"
    by simp
  have nf: "Suc (next_fd w_connect_fails) = 4"
    by (simp add: w_connect_fails_def w0_def)
  from client_closed_when_connect_or_accept_fails [OF run disjI1, OF mem] run mem res nf
  show ?thesis
    by (simp only: nf) blast
qed

lemma make_pair_listener_closed:
  "case make_pair pf fam ty pr host w of (w', r) \<Rightarrow>
   (\<exists>rest. calls_between w w' = (Socket fam ty pr, None) # rest) \<longrightarrow>
   length (filter (\<lambda>(c, ro). c = Close (next_fd w)) (calls_between w w')) = 1 \<and>
   (\<exists>k. socks w' (next_fd w) = Some k \<and> \<not> sk_open k)"
  by (simp add: run_defs prim_defs split: option.splits sum.splits prod.splits)

lemma make_pair_no_new_listener:
  "case make_pair pf fam ty pr host w of (w', r) \<Rightarrow>
   (\<forall>s k. socks w' s = Some k \<and> sk_open k \<and> sk_backlog k \<noteq> None \<longrightarrow> socks w s = Some k)"
  by (simp add: run_defs prim_defs split: option.splits sum.splits prod.splits)

text \<open>
  C4: the listener is the first socket a run creates, \<open>next_fd w\<close>. In every run whose
  first call, the creation of the listener, succeeded, \<^verbatim>\<open>close\<close> is called on the listener
  exactly once, whatever else fails, and the listener is closed in the state the caller is
  left with. Any socket that is open and listening in that state was already there, unchanged,
  before the call.
\<close>

theorem listener_closed_exactly_once:
  assumes run: "nonblocking_socketpair pf family socket_type proto w = (w', r)"
    and created: "calls_between w w' = (Socket family socket_type proto, None) # rest"
  shows "length (filter (\<lambda>(c, ro). c = Close (next_fd w)) (calls_between w w')) = 1 \<and>
         (\<exists>k. socks w' (next_fd w) = Some k \<and> \<not> sk_open k) \<and>
         (\<forall>s k. socks w' s = Some k \<and> sk_open k \<and> sk_backlog k \<noteq> None \<longrightarrow> socks w s = Some k)"
proof -
  from created have "w' \<noteq> w"
    by (auto simp: calls_between_same)
  with nonblocking_socketpair_cases [OF run] obtain host
    where mp: "make_pair pf family socket_type proto host w = (w', r)"
    by auto
  from make_pair_listener_closed [where pf = pf and fam = family and ty = socket_type
      and pr = proto and host = host and w = w] mp created
  have one: "length (filter (\<lambda>(c, ro). c = Close (next_fd w)) (calls_between w w')) = 1 \<and>
         (\<exists>k. socks w' (next_fd w) = Some k \<and> \<not> sk_open k)"
    by simp
  from make_pair_no_new_listener [where pf = pf and fam = family and ty = socket_type
      and pr = proto and host = host and w = w] mp
  have "\<forall>s k. socks w' s = Some k \<and> sk_open k \<and> sk_backlog k \<noteq> None \<longrightarrow> socks w s = Some k"
    by simp
  with one show ?thesis
    by blast
qed

lemma connect_fails_run:
  "\<exists>w'. nonblocking_socketpair linux 2 1 0 w_connect_fails = (w', Inl (Exc (OSError 111) None)) \<and>
     calls_between w_connect_fails w' =
       [(Socket 2 1 0, None), (Bind 3 ''127.0.0.1'' 0, None), (Listen 3 128, None),
        (GetSockName 3, None), (Socket 2 1 0, None), (Connect 4 ''127.0.0.1'' 50000, Some 111),
        (Close 4, None), (Close 3, None)]"
proof -
  have "snd (nonblocking_socketpair linux 2 1 0 w_connect_fails) = Inl (Exc (OSError 111) None)"
    by (simp add: eval_defs)
  moreover
  have "calls_between w_connect_fails (fst (nonblocking_socketpair linux 2 1 0 w_connect_fails)) =
        [(Socket 2 1 0, None), (Bind 3 ''127.0.0.1'' 0, None), (Listen 3 128, None),
         (GetSockName 3, None), (Socket 2 1 0, None), (Connect 4 ''127.0.0.1'' 50000, Some 111),
         (Close 4, None), (Close 3, None)]"
    by (simp add: eval_defs)
  ultimately show ?thesis
    by (cases "nonblocking_socketpair linux 2 1 0 w_connect_fails") auto
qed

theorem listener_closed_exactly_once_witness:
  "\<exists>w' r. nonblocking_socketpair linux 2 1 0 w_connect_fails = (w', r) \<and>
     calls_between w_connect_fails w' =
       (Socket 2 1 0, None) #
       [(Bind 3 ''127.0.0.1'' 0, None), (Listen 3 128, None),
        (GetSockName 3, None), (Socket 2 1 0, None), (Connect 4 ''127.0.0.1'' 50000, Some 111),
        (Close 4, None), (Close 3, None)] \<and>
     length (filter (\<lambda>(c, ro). c = Close 3) (calls_between w_connect_fails w')) = 1 \<and>
     (\<exists>k. socks w' 3 = Some k \<and> \<not> sk_open k)"
proof -
  from connect_fails_run obtain w'
    where run: "nonblocking_socketpair linux 2 1 0 w_connect_fails = (w', Inl (Exc (OSError 111) None))"
      and calls: "calls_between w_connect_fails w' =
       (Socket 2 1 0, None) #
       [(Bind 3 ''127.0.0.1'' 0, None), (Listen 3 128, None),
        (GetSockName 3, None), (Socket 2 1 0, None), (Connect 4 ''127.0.0.1'' 50000, Some 111),
        (Close 4, None), (Close 3, None)]"
    by blast
  have nf: "next_fd w_connect_fails = 3"
    by (simp add: w_connect_fails_def w0_def)
  note closed = listener_closed_exactly_once [OF run calls, unfolded nf]
  from closed have once: "length (filter (\<lambda>(c, ro). c = Close 3) (calls_between w_connect_fails w')) = 1"
    by (rule conjunct1)
  from closed have shut: "\<exists>k. socks w' 3 = Some k \<and> \<not> sk_open k"
    by (rule conjunct2 [THEN conjunct1])
  from run calls once shut
  have "nonblocking_socketpair linux 2 1 0 w_connect_fails = (w', Inl (Exc (OSError 111) None)) \<and>
     calls_between w_connect_fails w' =
       (Socket 2 1 0, None) #
       [(Bind 3 ''127.0.0.1'' 0, None), (Listen 3 128, None),
        (GetSockName 3, None), (Socket 2 1 0, None), (Connect 4 ''127.0.0.1'' 50000, Some 111),
        (Close 4, None), (Close 3, None)] \<and>
     length (filter (\<lambda>(c, ro). c = Close 3) (calls_between w_connect_fails w')) = 1 \<and>
     (\<exists>k. socks w' 3 = Some k \<and> \<not> sk_open k)"
    by (intro conjI)
  then show ?thesis
    by (intro exI)
qed

lemma make_pair_root_cause:
  "case make_pair pf fam ty pr host w of (w', r) \<Rightarrow>
   (\<forall>c e. (c, Some e) \<in> set (calls_between w w') \<and> \<not> is_close c \<longrightarrow>
      (\<exists>e'. r = Inl e' \<and> root_cause e' = Exc (OSError e) None))"
  apply (simp add: run_defs prim_defs split: option.splits sum.splits prod.splits)
  apply auto
  done

lemma make_pair_original_error:
  "case make_pair pf fam ty pr host w of (w', r) \<Rightarrow>
   (\<forall>c e. (c, Some e) \<in> set (calls_between w w') \<and> \<not> is_close c \<and>
      (\<forall>s e'. (Close s, Some e') \<notin> set (calls_between w w')) \<longrightarrow>
         r = Inl (Exc (OSError e) None))"
  apply (simp add: run_defs prim_defs split: option.splits sum.splits prod.splits)
  apply auto
  done

lemma make_pair_close_error:
  "case make_pair pf fam ty pr host w of (w', r) \<Rightarrow>
   (\<forall>s e. (Close s, Some e) \<in> set (calls_between w w') \<and>
       (s = next_fd w \<or> (Close (next_fd w), None) \<in> set (calls_between w w')) \<longrightarrow>
      (\<exists>ctx. r = Inl (Exc (OSError e) ctx)))"
  by (simp add: run_defs prim_defs split: option.splits sum.splits prod.splits)

lemma make_pair_cleanup_continues:
  "case make_pair pf fam ty pr host w of (w', r) \<Rightarrow>
   (\<forall>s e. (Close s, Some e) \<in> set (calls_between w w') \<longrightarrow>
      (\<exists>ro. (Close (next_fd w), ro) \<in> set (calls_between w w')))"
  by (simp add: run_defs prim_defs split: option.splits sum.splits prod.splits)

lemma connect_close_fail_run:
  "\<exists>w'. nonblocking_socketpair linux 2 1 0 w_connect_close_fail =
          (w', Inl (Exc (OSError 5) (Some (Exc (OSError 111) None)))) \<and>
     calls_between w_connect_close_fail w' =
       [(Socket 2 1 0, None), (Bind 3 ''127.0.0.1'' 0, None), (Listen 3 128, None),
        (GetSockName 3, None), (Socket 2 1 0, None), (Connect 4 ''127.0.0.1'' 50000, Some 111),
        (Close 4, Some 5), (Close 3, None)]"
proof -
  have "snd (nonblocking_socketpair linux 2 1 0 w_connect_close_fail) =
          Inl (Exc (OSError 5) (Some (Exc (OSError 111) None)))"
    by (simp add: eval_defs)
  moreover
  have "calls_between w_connect_close_fail
          (fst (nonblocking_socketpair linux 2 1 0 w_connect_close_fail)) =
        [(Socket 2 1 0, None), (Bind 3 ''127.0.0.1'' 0, None), (Listen 3 128, None),
         (GetSockName 3, None), (Socket 2 1 0, None), (Connect 4 ''127.0.0.1'' 50000, Some 111),
         (Close 4, Some 5), (Close 3, None)]"
    by (simp add: eval_defs)
  ultimately show ?thesis
    by (cases "nonblocking_socketpair linux 2 1 0 w_connect_close_fail") auto
qed

text \<open>
  C5, as stated, fails: when the \<^verbatim>\<open>connect\<close> call fails with errno 111 and the
  \<^verbatim>\<open>close\<close> of the client socket in the handler then fails with errno 5, the caller
  receives the \<^verbatim>\<open>OSError\<close> of the \<^verbatim>\<open>close\<close> call; the error of the \<^verbatim>\<open>connect\<close> call
  is only its context.
\<close>

theorem close_failure_replaces_original_error:
  "snd (nonblocking_socketpair linux 2 1 0 w_connect_close_fail) =
     Inl (Exc (OSError 5) (Some (Exc (OSError 111) None))) \<and>
   calls_between w_connect_close_fail
     (fst (nonblocking_socketpair linux 2 1 0 w_connect_close_fail)) =
     [(Socket 2 1 0, None), (Bind 3 ''127.0.0.1'' 0, None), (Listen 3 128, None),
      (GetSockName 3, None), (Socket 2 1 0, None), (Connect 4 ''127.0.0.1'' 50000, Some 111),
      (Close 4, Some 5), (Close 3, None)]"
  by (simp add: eval_defs)

text \<open>
  C5, amended: the cleanup has no error handling of its own. When a call other than a
  \<^verbatim>\<open>close\<close> fails, its error is the root of the context chain of the exception the caller
  receives, and it is that exception itself if no \<^verbatim>\<open>close\<close> call failed. When a
  \<^verbatim>\<open>close\<close> call fails, the caller receives the error of that call in place of the
  original one: that of the listener's \<^verbatim>\<open>close\<close> if it failed, else that of the client's.
  A failed \<^verbatim>\<open>close\<close> of the client socket does not stop the \<^verbatim>\<open>close\<close> of the listener.
\<close>

theorem cleanup_error_reporting:
  assumes run: "nonblocking_socketpair pf family socket_type proto w = (w', r)"
  shows "(\<forall>c e. (c, Some e) \<in> set (calls_between w w') \<and> \<not> is_close c \<longrightarrow>
            (\<exists>e'. r = Inl e' \<and> root_cause e' = Exc (OSError e) None) \<and>
            ((\<forall>s e'. (Close s, Some e') \<notin> set (calls_between w w')) \<longrightarrow>
               r = Inl (Exc (OSError e) None))) \<and>
         (\<forall>s e. (Close s, Some e) \<in> set (calls_between w w') \<and>
              (s = next_fd w \<or> (Close (next_fd w), None) \<in> set (calls_between w w')) \<longrightarrow>
            (\<exists>ctx. r = Inl (Exc (OSError e) ctx))) \<and>
         (\<forall>s e. (Close s, Some e) \<in> set (calls_between w w') \<longrightarrow>
            (\<exists>ro. (Close (next_fd w), ro) \<in> set (calls_between w w')))"
proof (cases "w' = w")
  case True
  then show ?thesis
    by (simp add: calls_between_same)
next
  case False
  with nonblocking_socketpair_cases [OF run] obtain host
    where mp: "make_pair pf family socket_type proto host w = (w', r)"
    by auto
  note inst = make_pair_root_cause [where pf = pf and fam = family and ty = socket_type
      and pr = proto and host = host and w = w]
    make_pair_original_error [where pf = pf and fam = family and ty = socket_type
      and pr = proto and host = host and w = w]
    make_pair_close_error [where pf = pf and fam = family and ty = socket_type
      and pr = proto and host = host and w = w]
    make_pair_cleanup_continues [where pf = pf and fam = family and ty = socket_type
      and pr = proto and host = host and w = w]
  from inst(1) mp have a: "\<forall>c e. (c, Some e) \<in> set (calls_between w w') \<and> \<not> is_close c \<longrightarrow>
      (\<exists>e'. r = Inl e' \<and> root_cause e' = Exc (OSError e) None)"
    by (simp only: prod.case)
  from inst(2) mp have b: "\<forall>c e. (c, Some e) \<in> set (calls_between w w') \<and> \<not> is_close c \<and>
      (\<forall>s e'. (Close s, Some e') \<notin> set (calls_between w w')) \<longrightarrow>
         r = Inl (Exc (OSError e) None)"
    by (simp only: prod.case)
  from inst(3) mp have c: "\<forall>s e. (Close s, Some e) \<in> set (calls_between w w') \<and>
       (s = next_fd w \<or> (Close (next_fd w), None) \<in> set (calls_between w w')) \<longrightarrow>
      (\<exists>ctx. r = Inl (Exc (OSError e) ctx))"
    by (simp only: prod.case)
  from inst(4) mp have d: "\<forall>s e. (Close s, Some e) \<in> set (calls_between w w') \<longrightarrow>
      (\<exists>ro. (Close (next_fd w), ro) \<in> set (calls_between w w'))"
    by (simp only: prod.case)
  from a b c d show ?thesis
    by blast
qed

theorem cleanup_error_reporting_witness:
  "(\<exists>w' r. nonblocking_socketpair linux 2 1 0 w_connect_close_fail = (w', r) \<and>
     (Connect 4 ''127.0.0.1'' 50000, Some 111) \<in> set (calls_between w_connect_close_fail w') \<and>
     \<not> is_close (Connect 4 ''127.0.0.1'' 50000) \<and>
     (\<exists>e'. r = Inl e' \<and> root_cause e' = Exc (OSError 111) None) \<and>
     (Close 4, Some 5) \<in> set (calls_between w_connect_close_fail w') \<and>
     (Close 3, None) \<in> set (calls_between w_connect_close_fail w') \<and>
     (\<exists>ctx. r = Inl (Exc (OSError 5) ctx))) \<and>
   (\<exists>w' r. nonblocking_socketpair linux 2 1 0 w_connect_fails = (w', r) \<and>
     (Connect 4 ''127.0.0.1'' 50000, Some 111) \<in> set (calls_between w_connect_fails w') \<and>
     (\<forall>s e'. (Close s, Some e') \<notin> set (calls_between w_connect_fails w')) \<and>
     r = Inl (Exc (OSError 111) None))"
proof -
  from connect_close_fail_run obtain w' r
    where run: "nonblocking_socketpair linux 2 1 0 w_connect_close_fail = (w', r)"
      and calls: "calls_between w_connect_close_fail w' =
       [(Socket 2 1 0, None), (Bind 3 ''127.0.0.1'' 0, None), (Listen 3 128, None),
        (GetSockName 3, None), (Socket 2 1 0, None), (Connect 4 ''127.0.0.1'' 50000, Some 111),
        (Close 4, Some 5), (Close 3, None)]"
    by blast
  have nf: "next_fd w_connect_close_fail = 3"
    by (simp add: w_connect_close_fail_def w0_def)
  have connect: "(Connect 4 ''127.0.0.1'' 50000, Some 111) \<in> set (calls_between w_connect_close_fail w')"
    by (simp add: calls)
  have not_close: "\<not> is_close (Connect 4 ''127.0.0.1'' 50000)"
    by simp
  have close_c: "(Close 4, Some 5) \<in> set (calls_between w_connect_close_fail w')"
    by (simp add: calls)
  have close_l: "(Close 3, None) \<in> set (calls_between w_connect_close_fail w')"
    by (simp add: calls)
  note all = cleanup_error_reporting [OF run, unfolded nf]
  note root = all [THEN conjunct1, THEN spec, THEN spec, THEN mp, OF conjI, OF connect not_close,
      THEN conjunct1]
  note masked = all [THEN conjunct2, THEN conjunct1, THEN spec, THEN spec, THEN mp, OF conjI,
      OF close_c disjI2, OF close_l]
  from run connect not_close root close_c close_l masked
  have "nonblocking_socketpair linux 2 1 0 w_connect_close_fail = (w', r) \<and>
     (Connect 4 ''127.0.0.1'' 50000, Some 111) \<in> set (calls_between w_connect_close_fail w') \<and>
     \<not> is_close (Connect 4 ''127.0.0.1'' 50000) \<and>
     (\<exists>e'. r = Inl e' \<and> root_cause e' = Exc (OSError 111) None) \<and>
     (Close 4, Some 5) \<in> set (calls_between w_connect_close_fail w') \<and>
     (Close 3, None) \<in> set (calls_between w_connect_close_fail w') \<and>
     (\<exists>ctx. r = Inl (Exc (OSError 5) ctx))"
    by (intro conjI)
  then have first: "\<exists>w' r. nonblocking_socketpair linux 2 1 0 w_connect_close_fail = (w', r) \<and>
     (Connect 4 ''127.0.0.1'' 50000, Some 111) \<in> set (calls_between w_connect_close_fail w') \<and>
     \<not> is_close (Connect 4 ''127.0.0.1'' 50000) \<and>
     (\<exists>e'. r = Inl e' \<and> root_cause e' = Exc (OSError 111) None) \<and>
     (Close 4, Some 5) \<in> set (calls_between w_connect_close_fail w') \<and>
     (Close 3, None) \<in> set (calls_between w_connect_close_fail w') \<and>
     (\<exists>ctx. r = Inl (Exc (OSError 5) ctx))"
    by (intro exI)
  from connect_fails_run obtain v q
    where run': "nonblocking_socketpair linux 2 1 0 w_connect_fails = (v, q)"
      and calls': "calls_between w_connect_fails v =
       [(Socket 2 1 0, None), (Bind 3 ''127.0.0.1'' 0, None), (Listen 3 128, None),
        (GetSockName 3, None), (Socket 2 1 0, None), (Connect 4 ''127.0.0.1'' 50000, Some 111),
        (Close 4, None), (Close 3, None)]"
    by blast
  have connect': "(Connect 4 ''127.0.0.1'' 50000, Some 111) \<in> set (calls_between w_connect_fails v)"
    by (simp add: calls')
  have no_close_failed: "\<forall>s e'. (Close s, Some e') \<notin> set (calls_between w_connect_fails v)"
    by (simp add: calls')
  note all' = cleanup_error_reporting [OF run']
  note original = all' [THEN conjunct1, THEN spec, THEN spec, THEN mp, OF conjI,
      OF connect' not_close, THEN conjunct2, THEN mp, OF no_close_failed]
  from run' connect' no_close_failed original
  have "nonblocking_socketpair linux 2 1 0 w_connect_fails = (v, q) \<and>
     (Connect 4 ''127.0.0.1'' 50000, Some 111) \<in> set (calls_between w_connect_fails v) \<and>
     (\<forall>s e'. (Close s, Some e') \<notin> set (calls_between w_connect_fails v)) \<and>
     q = Inl (Exc (OSError 111) None)"
    by (intro conjI)
  then have second: "\<exists>w' r. nonblocking_socketpair linux 2 1 0 w_connect_fails = (w', r) \<and>
     (Connect 4 ''127.0.0.1'' 50000, Some 111) \<in> set (calls_between w_connect_fails w') \<and>
     (\<forall>s e'. (Close s, Some e') \<notin> set (calls_between w_connect_fails w')) \<and>
     r = Inl (Exc (OSError 111) None)"
    by (intro exI)
  from first second show ?thesis
    by (rule conjI)
qed

lemma make_pair_bind_listen_args:
  "case make_pair pf fam ty pr host w of (w', r) \<Rightarrow>
  (\<forall>s h p ro. (Bind s h p, ro) \<in> set (calls_between w w') \<longrightarrow> s = next_fd w \<and> h = host \<and> p = 0) \<and>
  (\<forall>s b ro. (Listen s b, ro) \<in> set (calls_between w w') \<longrightarrow>
      s = next_fd w \<and> b = min (SOMAXCONN pf) 128)"
  by (simp add: run_defs prim_defs split: option.splits sum.splits prod.splits)

lemma make_pair_bind_listen_made:
  "case make_pair pf fam ty pr host w of (w', r) \<Rightarrow>
  (\<forall>rest. calls_between w w' = (Socket fam ty pr, None) # rest \<longrightarrow>
     (\<exists>ro rest'. rest = (Bind (next_fd w) host 0, ro) # rest')) \<and>
  ((Bind (next_fd w) host 0, None) \<in> set (calls_between w w') \<longrightarrow>
     (\<exists>ro. (Listen (next_fd w) (min (SOMAXCONN pf) 128), ro) \<in> set (calls_between w w')) \<and>
     (\<exists>k. socks w' (next_fd w) = Some k \<and> sk_local k = Some (host, eph_port w))) \<and>
  ((Listen (next_fd w) (min (SOMAXCONN pf) 128), None) \<in> set (calls_between w w') \<longrightarrow>
     (\<exists>k. socks w' (next_fd w) = Some k \<and> sk_backlog k = Some (min (SOMAXCONN pf) 128)))"
  by (simp add: run_defs prim_defs split: option.splits sum.splits prod.splits)

lemma select_host_literal:
  assumes "family = AF_INET pf \<or> family = AF_INET6 pf"
  shows "select_host pf family = Inr (if family = AF_INET pf then ''127.0.0.1'' else ''::1'')"
  using assms by (auto simp: select_host_def LOCALHOST_def LOCALHOST_V6_def)

text \<open>
  C7: for a supported family, with \<open>host\<close> the loopback literal of the family
  (\<^verbatim>\<open>127.0.0.1\<close> for \<^verbatim>\<open>AF_INET\<close>, \<^verbatim>\<open>::1\<close> for \<^verbatim>\<open>AF_INET6\<close>) and \<open>backlog\<close> the
  smaller of \<^verbatim>\<open>SOMAXCONN\<close> and 128: every \<^verbatim>\<open>bind\<close> call of a run is on the listener, to
  \<open>host\<close> and port 0, and every \<^verbatim>\<open>listen\<close> call is on the listener with \<open>backlog\<close>; once
  the listener exists the next call is that \<^verbatim>\<open>bind\<close>; once the \<^verbatim>\<open>bind\<close> has succeeded the
  \<^verbatim>\<open>listen\<close> call is made and the listener is bound to \<open>host\<close> on the port the host assigned;
  once the \<^verbatim>\<open>listen\<close> has succeeded the listener has that backlog.
\<close>

theorem listener_bind_listen:
  assumes run: "nonblocking_socketpair pf family socket_type proto w = (w', r)"
    and supported: "family = AF_INET pf \<or> family = AF_INET6 pf"
    and host: "host = (if family = AF_INET pf then ''127.0.0.1'' else ''::1'')"
    and backlog: "backlog = min (SOMAXCONN pf) 128"
  shows "(\<forall>s h p ro. (Bind s h p, ro) \<in> set (calls_between w w') \<longrightarrow>
            s = next_fd w \<and> h = host \<and> p = 0) \<and>
         (\<forall>s b ro. (Listen s b, ro) \<in> set (calls_between w w') \<longrightarrow>
            s = next_fd w \<and> b = backlog) \<and>
         (\<forall>rest. calls_between w w' = (Socket family socket_type proto, None) # rest \<longrightarrow>
            (\<exists>ro rest'. rest = (Bind (next_fd w) host 0, ro) # rest')) \<and>
         ((Bind (next_fd w) host 0, None) \<in> set (calls_between w w') \<longrightarrow>
            (\<exists>ro. (Listen (next_fd w) backlog, ro) \<in> set (calls_between w w')) \<and>
            (\<exists>k. socks w' (next_fd w) = Some k \<and> sk_local k = Some (host, eph_port w))) \<and>
         ((Listen (next_fd w) backlog, None) \<in> set (calls_between w w') \<longrightarrow>
            (\<exists>k. socks w' (next_fd w) = Some k \<and> sk_backlog k = Some backlog))"
proof (cases "w' = w")
  case True
  then show ?thesis
    by (simp add: calls_between_same)
next
  case False
  with nonblocking_socketpair_cases [OF run] obtain h
    where sel: "select_host pf family = Inr h"
      and mp: "make_pair pf family socket_type proto h w = (w', r)"
    by auto
  from sel select_host_literal [OF supported] host have h: "h = host"
    by simp
  from make_pair_bind_listen_args [where pf = pf and fam = family and ty = socket_type
      and pr = proto and host = host and w = w] mp h backlog
  have args: "(\<forall>s h p ro. (Bind s h p, ro) \<in> set (calls_between w w') \<longrightarrow>
            s = next_fd w \<and> h = host \<and> p = 0) \<and>
         (\<forall>s b ro. (Listen s b, ro) \<in> set (calls_between w w') \<longrightarrow>
            s = next_fd w \<and> b = backlog)"
    by (simp only: prod.case)
  from make_pair_bind_listen_made [where pf = pf and fam = family and ty = socket_type
      and pr = proto and host = host and w = w] mp h backlog
  have made: "(\<forall>rest. calls_between w w' = (Socket family socket_type proto, None) # rest \<longrightarrow>
            (\<exists>ro rest'. rest = (Bind (next_fd w) host 0, ro) # rest')) \<and>
         ((Bind (next_fd w) host 0, None) \<in> set (calls_between w w') \<longrightarrow>
            (\<exists>ro. (Listen (next_fd w) backlog, ro) \<in> set (calls_between w w')) \<and>
            (\<exists>k. socks w' (next_fd w) = Some k \<and> sk_local k = Some (host, eph_port w))) \<and>
         ((Listen (next_fd w) backlog, None) \<in> set (calls_between w w') \<longrightarrow>
            (\<exists>k. socks w' (next_fd w) = Some k \<and> sk_backlog k = Some backlog))"
    by (simp only: prod.case)
  from conjI [OF args made] show ?thesis
    by (simp only: conj_assoc)
qed

theorem listener_bind_listen_witness:
  "\<exists>w' r. nonblocking_socketpair linux 10 1 0 w0 = (w', r) \<and>
     (10 = AF_INET linux \<or> 10 = AF_INET6 linux) \<and>
     calls_between w0 w' =
       (Socket 10 1 0, None) #
       [(Bind 3 ''::1'' 0, None), (Listen 3 128, None), (GetSockName 3, None),
        (Socket 10 1 0, None), (Connect 4 ''::1'' 50000, None), (Accept 3, None),
        (Close 3, None), (SetBlocking 4 False, None), (SetBlocking 5 False, None)] \<and>
     (\<exists>k. socks w' 3 = Some k \<and> sk_local k = Some (''::1'', 50000)) \<and>
     (\<exists>k. socks w' 3 = Some k \<and> sk_backlog k = Some 128)"
proof -
  have "calls_between w0 (fst (nonblocking_socketpair linux 10 1 0 w0)) =
       (Socket 10 1 0, None) #
       [(Bind 3 ''::1'' 0, None), (Listen 3 128, None), (GetSockName 3, None),
        (Socket 10 1 0, None), (Connect 4 ''::1'' 50000, None), (Accept 3, None),
        (Close 3, None), (SetBlocking 4 False, None), (SetBlocking 5 False, None)]"
    by (simp add: eval_defs)
  then obtain w' r
    where run: "nonblocking_socketpair linux 10 1 0 w0 = (w', r)"
      and calls: "calls_between w0 w' =
       (Socket 10 1 0, None) #
       [(Bind 3 ''::1'' 0, None), (Listen 3 128, None), (GetSockName 3, None),
        (Socket 10 1 0, None), (Connect 4 ''::1'' 50000, None), (Accept 3, None),
        (Close 3, None), (SetBlocking 4 False, None), (SetBlocking 5 False, None)]"
    by (cases "nonblocking_socketpair linux 10 1 0 w0") auto
  have supported: "10 = AF_INET linux \<or> 10 = AF_INET6 linux"
    by (simp add: linux_def)
  have host: "''::1'' = (if 10 = AF_INET linux then ''127.0.0.1'' else ''::1'')"
    by (simp add: linux_def)
  have backlog: "128 = min (SOMAXCONN linux) 128"
    by (simp add: linux_def)
  have nf: "next_fd w0 = 3" and ep: "eph_port w0 = 50000"
    by (simp_all add: w0_def)
  have bound: "(Bind 3 ''::1'' 0, None) \<in> set (calls_between w0 w')"
    by (simp add: calls)
  have listening: "(Listen 3 128, None) \<in> set (calls_between w0 w')"
    by (simp add: calls)
  note all = listener_bind_listen [OF run supported host backlog, unfolded nf ep]
  note local = all [THEN conjunct2, THEN conjunct2, THEN conjunct2, THEN conjunct1, THEN mp,
      OF bound, THEN conjunct2]
  note queue = all [THEN conjunct2, THEN conjunct2, THEN conjunct2, THEN conjunct2, THEN mp,
      OF listening]
  from run supported calls local queue
  have "nonblocking_socketpair linux 10 1 0 w0 = (w', r) \<and>
     (10 = AF_INET linux \<or> 10 = AF_INET6 linux) \<and>
     calls_between w0 w' =
       (Socket 10 1 0, None) #
       [(Bind 3 ''::1'' 0, None), (Listen 3 128, None), (GetSockName 3, None),
        (Socket 10 1 0, None), (Connect 4 ''::1'' 50000, None), (Accept 3, None),
        (Close 3, None), (SetBlocking 4 False, None), (SetBlocking 5 False, None)] \<and>
     (\<exists>k. socks w' 3 = Some k \<and> sk_local k = Some (''::1'', 50000)) \<and>
     (\<exists>k. socks w' 3 = Some k \<and> sk_backlog k = Some 128)"
    by (intro conjI)
  then show ?thesis
    by (intro exI)
qed

subsection \<open>as_bytes and to_digit\<close>

text \<open>
  C9: \<^verbatim>\<open>as_bytes\<close> returns a \<^verbatim>\<open>bytes\<close> value as it is, and applying it to its own result
  changes nothing: whatever the first call gives, the value it returned or the exception it
  raised, is what \<^verbatim>\<open>as_bytes(as_bytes(value))\<close> gives.
\<close>

theorem as_bytes_idempotent:
  "as_bytes (PyBytes b) = Inr (PyBytes b) \<and>
   (case as_bytes value of Inl e \<Rightarrow> Inl e | Inr encoded \<Rightarrow> as_bytes encoded) = as_bytes value"
  by (cases "value") (auto simp: as_bytes_def split: sum.splits)

text \<open>
  \<^verbatim>\<open>int\<close> cannot fail on a string of decimal characters, and group 1 of a match of
  \<^verbatim>\<open>RE_NUM\<close> is such a string. So \<^verbatim>\<open>to_digit\<close> returns a natural number for every string
  that holds no character of \<open>digit_only_blocks\<close>, and 0 if moreover the string does not start
  with a decimal character.
\<close>

lemma decimal_numeral_Some:
  "list_all is_decimal s \<Longrightarrow> \<exists>n. decimal_numeral acc s = Some n"
  by (induction s arbitrary: acc) (auto simp: is_decimal_def)

lemma py_int_decimal:
  assumes "s \<noteq> []" and "list_all is_decimal s"
  shows "\<exists>n. py_int s = Inr n \<and> 0 \<le> n"
proof -
  from decimal_numeral_Some [OF assms(2)] obtain n where "decimal_numeral 0 s = Some n"
    by blast
  with assms(1) show ?thesis
    by (simp add: py_int_def)
qed

lemma take_decimal_run:
  assumes "n \<le> length (takeWhile is_decimal s)"
  shows "list_all is_decimal (take n s)"
proof -
  have "take n s = take n (takeWhile is_decimal s @ dropWhile is_decimal s)"
    by simp
  also from assms have "\<dots> = take n (takeWhile is_decimal s)"
    by (simp del: takeWhile_dropWhile_id)
  finally have "set (take n s) \<subseteq> set (takeWhile is_decimal s)"
    by (simp add: set_take_subset)
  then show ?thesis
    by (auto simp: list_all_iff dest: set_takeWhileD)
qed

lemma backtrack_group:
  assumes "backtrack s n = Some g" and "n \<le> length (takeWhile is_decimal s)"
  shows "g \<noteq> [] \<and> list_all is_decimal g"
  using assms
proof (induction n)
  case 0
  then show ?case by simp
next
  case (Suc n)
  show ?case
  proof (cases "dot_plus (drop (Suc n) s)")
    case True
    with Suc.prems have g: "g = take (Suc n) s"
      by simp
    from Suc.prems(2) have "Suc n \<le> length s"
      using length_takeWhile_le [of is_decimal s] by linarith
    then have "s \<noteq> []"
      by auto
    with g have "g \<noteq> []"
      by simp
    with g take_decimal_run [OF Suc.prems(2)] show ?thesis
      by simp
  next
    case False
    with Suc show ?thesis
      by simp
  qed
qed

lemma to_digit_total_without_digit_only:
  assumes "\<forall>cp \<in> set s. block_of cp digit_only_blocks = None"
  shows "\<exists>n. to_digit s = Inr n \<and> 0 \<le> n"
proof (cases "isdigit s")
  case True
  with assms have "s \<noteq> []" and "list_all is_decimal s"
    by (auto simp: isdigit_def is_digit_def list_all_iff)
  from py_int_decimal [OF this] True show ?thesis
    by (simp add: to_digit_def)
next
  case False
  show ?thesis
  proof (cases "RE_NUM_match s")
    case None
    with False show ?thesis
      by (simp add: to_digit_def)
  next
    case (Some g)
    then have "backtrack s (length (takeWhile is_decimal s)) = Some g"
      by (simp add: RE_NUM_match_def)
    from backtrack_group [OF this le_refl] have "g \<noteq> [] \<and> list_all is_decimal g" .
    then have "\<exists>n. py_int g = Inr n \<and> 0 \<le> n"
      by (simp add: py_int_decimal)
    with False Some show ?thesis
      by (simp add: to_digit_def)
  qed
qed

lemma to_digit_zero_without_leading_decimal:
  assumes "\<not> isdigit s" and "s = [] \<or> \<not> is_decimal (hd s)"
  shows "to_digit s = Inr 0"
proof -
  from assms(2) have "takeWhile is_decimal s = []"
    by (cases s) auto
  with assms(1) show ?thesis
    by (simp add: to_digit_def RE_NUM_match_def)
qed

text \<open>
  C10: \<^verbatim>\<open>to_digit\<close> guards \<^verbatim>\<open>int(value)\<close> with \<^verbatim>\<open>value.isdigit()\<close>, which also accepts
  the characters that have a digit value but no decimal value, and those \<^verbatim>\<open>int\<close> rejects.
  On the one-character string SUPERSCRIPT TWO (U+00B2), which does not begin with a decimal
  digit, the function raises \<^verbatim>\<open>ValueError\<close> instead of returning 0.
\<close>

theorem to_digit_raises_on_superscript_two:
  "isdigit [0xB2] \<and> \<not> is_decimal 0xB2 \<and> to_digit [0xB2] = Inl invalid_literal"
  by (simp add: to_digit_def isdigit_def is_digit_def is_decimal_def to_decimal_def
      decimal_blocks_def digit_only_blocks_def py_int_def)

end
